theory Spec2Isabelle
  imports Complex_Main "HOL-Library.AList"
begin

section \<open>Python values and errors\<close>

text \<open>
  The classes of \<^verbatim>\<open>cube/core.py\<close> are pydantic models whose fields hold arbitrary Python
  values. A class is identified by its \<^verbatim>\<open>__module__\<close>, \<^verbatim>\<open>__name__\<close> and
  \<^verbatim>\<open>__qualname__\<close>; a PIL image by its mode, size and pixel bytes.
\<close>

datatype pycls = PyCls (cls_module: string) (cls_name: string) (cls_qualname: string)

datatype image = Image (img_mode: string) (img_size: "nat \<times> nat") (img_bytes: "nat list")

datatype pyval =
    PNone
  | PBool bool
  | PInt int
  | PStr string
  | PList "pyval list"
  | PDict "(string \<times> pyval) list"
  | PModel pycls "(string \<times> pyval) list"
  | PImage image
  | PTuple "pyval list"
  | PBytes string
  | PObject string

text \<open>
  \<open>PBytes s\<close> is the \<^verbatim>\<open>bytes\<close> object that holds the UTF-8 encoding of the text \<open>s\<close>.
  \<open>PObject\<close> stands for an object that is no number, no string or bytes, no mapping,
  no collection or iterator, no model and no image (a tool instance, a function, a
  class, \<^verbatim>\<open>NotImplemented\<close>), named by a text; it has the truth value Python gives an
  object by default.
\<close>

text \<open>
  Every exception the modelled code can raise or let through is a value. The string is
  the message (\<^verbatim>\<open>str(e)\<close>). \<open>BaseException\<close> is an exception that is not an instance
  of \<^verbatim>\<open>Exception\<close>: \<^verbatim>\<open>KeyboardInterrupt\<close>, \<^verbatim>\<open>SystemExit\<close>, \<^verbatim>\<open>GeneratorExit\<close> or a class of
  the program's own derived from \<^verbatim>\<open>BaseException\<close>.
\<close>

datatype error =
    ValueError string
  | AttributeError string
  | ModuleNotFoundError string
  | ValidationError string
  | SerializationError string
  | CodecError string
  | BaseException string

text \<open>Truthiness, as tested by \<^verbatim>\<open>if x\<close>, \<^verbatim>\<open>not x\<close> and \<^verbatim>\<open>x or y\<close>.\<close>

fun truthy :: "pyval \<Rightarrow> bool" where
  "truthy PNone = False"
| "truthy (PBool b) = b"
| "truthy (PInt i) = (i \<noteq> 0)"
| "truthy (PStr s) = (s \<noteq> [])"
| "truthy (PList xs) = (xs \<noteq> [])"
| "truthy (PDict kvs) = (kvs \<noteq> [])"
| "truthy (PModel c fs) = True"
| "truthy (PImage img) = True"
| "truthy (PTuple xs) = (xs \<noteq> [])"
| "truthy (PBytes s) = (s \<noteq> [])"
| "truthy (PObject n) = True"

definition py_or :: "pyval \<Rightarrow> pyval \<Rightarrow> pyval" where
  "py_or a b = (if truthy a then a else b)"

text \<open>An optional string attribute (\<^verbatim>\<open>str | None\<close>) is truthy when set and non-empty.\<close>

fun truthy_opt :: "string option \<Rightarrow> bool" where
  "truthy_opt None = False"
| "truthy_opt (Some s) = (s \<noteq> [])"

fun opt_str :: "string option \<Rightarrow> pyval" where
  "opt_str None = PNone"
| "opt_str (Some s) = PStr s"

definition startswith :: "string \<Rightarrow> string \<Rightarrow> bool" where
  "startswith s p = (take (length p) s = p)"

section \<open>External capabilities\<close>

text \<open>
  The image codec (PIL's PNG writer and reader), \<^verbatim>\<open>base64\<close>, \<^verbatim>\<open>json.dumps\<close> and
  pydantic's \<^verbatim>\<open>model_dump_json\<close> are libraries outside the repository. They are
  parameters of the model; each may raise.
\<close>

record ext =
  save_png :: "image \<Rightarrow> error + nat list"
  b64encode :: "nat list \<Rightarrow> string"
  b64decode :: "string \<Rightarrow> error + nat list"
  open_png :: "nat list \<Rightarrow> error + image"
  json_dumps :: "pyval \<Rightarrow> error + string"
  model_dump_json :: "pyval \<Rightarrow> error + string"

section \<open>Content (core.py)\<close>

definition image_prefix :: string where
  "image_prefix = ''data:image/png;base64,''"

text \<open>
  The field \<^verbatim>\<open>data: str | dict | list | BaseModel | Image.Image\<close>. Pydantic checks the
  union when a \<^verbatim>\<open>Content\<close> is constructed, so a stored value is one of the five variants.
\<close>

datatype cdata =
    Text string
  | Mapping "(string \<times> pyval) list"
  | Sequence "pyval list"
  | Model pycls "(string \<times> pyval) list"
  | Picture image

record content =
  tool_call_id :: "string option"
  name :: "string option"
  data :: cdata

fun cdata_value :: "cdata \<Rightarrow> pyval" where
  "cdata_value (Text s) = PStr s"
| "cdata_value (Mapping d) = PDict d"
| "cdata_value (Sequence xs) = PList xs"
| "cdata_value (Model c fs) = PModel c fs"
| "cdata_value (Picture img) = PImage img"

text \<open>
  \<^verbatim>\<open>as_base64_image_str(data)\<close> calls \<^verbatim>\<open>data.save(byte_arr, format="PNG")\<close>. Only an image
  has a \<^verbatim>\<open>save\<close> method: on any other value the attribute lookup raises.
\<close>

definition as_base64_image_str :: "ext \<Rightarrow> pyval \<Rightarrow> error + string" where
  "as_base64_image_str x v =
     (case v of
        PImage img \<Rightarrow>
          (case save_png x img of
             Inl e \<Rightarrow> Inl e
           | Inr byte_arr \<Rightarrow> Inr (image_prefix @ b64encode x byte_arr))
      | _ \<Rightarrow> Inl (AttributeError ''save''))"

text \<open>
  The field serializer: \<^verbatim>\<open>if isinstance(data, str): return data\<close>, otherwise
  \<^verbatim>\<open>return self.as_base64_image_str(data)\<close>.
\<close>

definition serialize_data :: "ext \<Rightarrow> pyval \<Rightarrow> error + pyval" where
  "serialize_data x v =
     (case v of
        PStr s \<Rightarrow> Inr (PStr s)
      | _ \<Rightarrow> (case as_base64_image_str x v of Inl e \<Rightarrow> Inl e | Inr s \<Rightarrow> Inr (PStr s)))"

text \<open>
  The field validator (mode \<^verbatim>\<open>before\<close>): a string that starts with the prefix is cut,
  base64-decoded and opened as an image; anything else is returned as it is.
\<close>

definition deserialize_data :: "ext \<Rightarrow> pyval \<Rightarrow> error + pyval" where
  "deserialize_data x v =
     (case v of
        PStr s \<Rightarrow>
          (if startswith s image_prefix then
             (case b64decode x (drop (length image_prefix) s) of
                Inl e \<Rightarrow> Inl e
              | Inr decoded_image \<Rightarrow>
                  (case open_png x decoded_image of
                     Inl e \<Rightarrow> Inl e
                   | Inr img \<Rightarrow> Inr (PImage img)))
           else Inr v)
      | _ \<Rightarrow> Inr v)"

text \<open>
  Pydantic's check of the declared union, after the \<^verbatim>\<open>before\<close> validator: a string, a
  dict, a list, a model instance or an image is accepted as it is; when no member of the
  union takes the value as it is, a tuple is taken as the list of its items and bytes
  as the string they encode. \<^verbatim>\<open>None\<close>, a bool, an integer and the objects \<open>PObject\<close>
  stands for are rejected with a validation error.
\<close>

fun validate_union :: "pyval \<Rightarrow> error + cdata" where
  "validate_union (PStr s) = Inr (Text s)"
| "validate_union (PDict d) = Inr (Mapping d)"
| "validate_union (PList xs) = Inr (Sequence xs)"
| "validate_union (PModel c fs) = Inr (Model c fs)"
| "validate_union (PImage img) = Inr (Picture img)"
| "validate_union (PTuple xs) = Inr (Sequence xs)"
| "validate_union (PBytes s) = Inr (Text s)"
| "validate_union v = Inl (ValidationError ''data'')"

text \<open>The constructor call \<^verbatim>\<open>Content(data=v, tool_call_id=t, name=n)\<close>.\<close>

definition Content :: "ext \<Rightarrow> string option \<Rightarrow> string option \<Rightarrow> pyval \<Rightarrow> error + content" where
  "Content x t n v =
     (case deserialize_data x v of
        Inl e \<Rightarrow> Inl e
      | Inr v' \<Rightarrow>
          (case validate_union v' of
             Inl e \<Rightarrow> Inl e
           | Inr d \<Rightarrow> Inr \<lparr>tool_call_id = t, name = n, data = d\<rparr>))"

text \<open>
  \<^verbatim>\<open>to_message\<close>: the message is a dict, here an association list in insertion order.
  The header \<^verbatim>\<open>##{name}\n\<close> is added when the name is truthy.
\<close>

definition with_header :: "string option \<Rightarrow> string \<Rightarrow> string" where
  "with_header n msg_content =
     (if truthy_opt n then ''##'' @ the n @ [CHR 0x0A] @ msg_content else msg_content)"

definition msg_content_of :: "ext \<Rightarrow> content \<Rightarrow> error + pyval" where
  "msg_content_of x c =
     (case data c of
        Picture img \<Rightarrow>
          (case as_base64_image_str x (PImage img) of
             Inl e \<Rightarrow> Inl e
           | Inr image_base64 \<Rightarrow>
               (let msg_content =
                      [PDict [(''type'', PStr ''image_url''),
                              (''image_url'', PDict [(''url'', PStr image_base64)])]]
                in Inr (PList
                     (if truthy_opt (name c)
                      then PDict [(''type'', PStr ''text''), (''text'', PStr (the (name c)))]
                           # msg_content
                      else msg_content))))
      | Model k fs \<Rightarrow>
          (case model_dump_json x (PModel k fs) of
             Inl e \<Rightarrow> Inl e
           | Inr s \<Rightarrow> Inr (PStr s))
      | Mapping d \<Rightarrow>
          (case json_dumps x (PDict d) of
             Inl e \<Rightarrow> Inl e
           | Inr s \<Rightarrow> Inr (PStr (with_header (name c) s)))
      | Sequence xs \<Rightarrow>
          (case json_dumps x (PList xs) of
             Inl e \<Rightarrow> Inl e
           | Inr s \<Rightarrow> Inr (PStr (with_header (name c) s)))
      | Text s \<Rightarrow> Inr (PStr (with_header (name c) s)))"

definition to_message :: "ext \<Rightarrow> content \<Rightarrow> error + (string \<times> pyval) list" where
  "to_message x c =
     (case msg_content_of x c of
        Inl e \<Rightarrow> Inl e
      | Inr msg_content \<Rightarrow>
          (let role = (if truthy_opt (tool_call_id c) then ''tool'' else ''user'');
               message = [(''role'', PStr role), (''content'', msg_content)]
           in Inr (if truthy_opt (tool_call_id c)
                   then AList.update ''tool_call_id'' (opt_str (tool_call_id c)) message
                   else message)))"

section \<open>Observation (core.py)\<close>

record observation =
  contents :: "content list"


definition to_llm_messages :: "ext \<Rightarrow> observation \<Rightarrow> (error + (string \<times> pyval) list) list" where
  "to_llm_messages x ob = map (to_message x) (contents ob)"

text \<open>
  \<^verbatim>\<open>__add__\<close> mutates: \<^verbatim>\<open>self.contents += other.contents\<close> extends the list object held
  by \<^verbatim>\<open>self\<close> in place and \<^verbatim>\<open>return self\<close> hands back the left operand. Observations
  and lists are objects in a store: an observation's address leads to the address of
  its \<^verbatim>\<open>contents\<close> list, and that address to the list's elements.
\<close>

record store =
  contents_ref :: "nat \<Rightarrow> nat"
  list_at :: "nat \<Rightarrow> content list"

definition contents_of :: "store \<Rightarrow> nat \<Rightarrow> content list" where
  "contents_of st a = list_at st (contents_ref st a)"

definition observation_add :: "nat \<Rightarrow> nat \<Rightarrow> store \<Rightarrow> nat \<times> store" where
  "observation_add self other st =
     (let l = contents_ref st self;
          extended = list_at st l @ list_at st (contents_ref st other);
          st1 = st\<lparr>list_at := (list_at st)(l := extended)\<rparr>;
          st2 = st1\<lparr>contents_ref := (contents_ref st1)(self := l)\<rparr>
      in (self, st2))"

section \<open>Actions and tool dispatch (core.py, tool.py)\<close>

record action =
  action_id :: "string option"
  action_name :: string
  arguments :: "(string \<times> pyval) list"


text \<open>
  A tool method is arbitrary Python code run against the state \<open>'w\<close> the task and the
  tool own. Called with the action's keyword arguments it changes that state and
  returns a value (\<open>Returns\<close>), raises an instance of \<^verbatim>\<open>Exception\<close> whose \<^verbatim>\<open>str()\<close> is
  the given text (\<open>Raises\<close>), or raises an exception that is not an instance of
  \<^verbatim>\<open>Exception\<close>, such as \<^verbatim>\<open>KeyboardInterrupt\<close> or \<^verbatim>\<open>SystemExit\<close> (\<open>RaisesBase\<close>). A call
  that never returns is not part of the model.
\<close>

datatype outcome = Returns pyval | Raises string | RaisesBase string

type_synonym 'w callable = "(string \<times> pyval) list \<Rightarrow> 'w \<Rightarrow> outcome \<times> 'w"

text \<open>
  A \<^verbatim>\<open>Tool\<close> as \<^verbatim>\<open>tool.py\<close> sees it: \<open>protocol_members\<close> are the names the action
  space declares (\<^verbatim>\<open>get_protocol_members(self.action_space)\<close>, which \<^verbatim>\<open>get_actions\<close>
  lists); \<open>space_attr n\<close> says whether \<^verbatim>\<open>getattr(self.action_space, n, None)\<close> is
  truthy, which it also is for an attribute the class of the action space has without
  declaring it; \<open>self_attr n\<close> is the truthy result of \<^verbatim>\<open>getattr(self, n, None)\<close> if
  there is one; \<open>space_repr\<close> and \<open>class_name\<close> are the two texts the error messages
  interpolate.
\<close>

record 'w tool =
  protocol_members :: "string list"
  space_attr :: "string \<Rightarrow> bool"
  self_attr :: "string \<Rightarrow> 'w callable option"
  space_repr :: string
  class_name :: string

definition get_action_method :: "'w tool \<Rightarrow> action \<Rightarrow> error + 'w callable" where
  "get_action_method t a =
     (if \<not> space_attr t (action_name a) then
        Inl (ValueError (''Action '' @ action_name a @ '' is not a part of '' @ space_repr t @ ''.''))
      else
        (case self_attr t (action_name a) of
           None \<Rightarrow>
             Inl (ValueError
                   (''Action '' @ action_name a @ '' is not implemented in '' @ class_name t @ ''.''))
         | Some fn \<Rightarrow> Inr fn))"

text \<open>
  \<^verbatim>\<open>execute_action\<close>: the lookup is outside the \<^verbatim>\<open>try\<close>, the call inside it, the
  construction of the observation after it. \<^verbatim>\<open>except Exception\<close> catches what
  \<open>Raises\<close> stands for and lets what \<open>RaisesBase\<close> stands for go on to the caller.
  \<^verbatim>\<open>logger.exception\<close> writes to the process log and does not touch the result; it is
  left out.
\<close>

definition execute_action ::
  "ext \<Rightarrow> 'w tool \<Rightarrow> action \<Rightarrow> 'w \<Rightarrow> (error + observation) \<times> 'w" where
  "execute_action x t a w =
     (case get_action_method t a of
        Inl e \<Rightarrow> (Inl e, w)
      | Inr fn \<Rightarrow>
          (case fn (arguments a) w of
             (r, w') \<Rightarrow>
               (case (case r of
                        Returns v \<Rightarrow> Inr (py_or v (PStr ''Success''))
                      | Raises e \<Rightarrow>
                          Inr (PStr (''Error executing action '' @ action_name a @ '': '' @ e))
                      | RaisesBase e \<Rightarrow> Inl (BaseException e)) of
                  Inl e \<Rightarrow> (Inl e, w')
                | Inr action_result \<Rightarrow>
                    (case Content x (action_id a) None action_result of
                       Inl e \<Rightarrow> (Inl e, w')
                     | Inr c \<Rightarrow> (Inr \<lparr>contents = [c]\<rparr>, w')))))"

section \<open>Task and environment (core.py, environment.py)\<close>











section \<open>Type-tagged serialization (base.py)\<close>







section \<open>Notions used to state the properties\<close>




text \<open>
  The values \<^verbatim>\<open>Content\<close> stores as they are: a string that does not start with the image
  prefix, a dict, a list, a model instance, an image.
\<close>

fun plain_data :: "pyval \<Rightarrow> bool" where
  "plain_data (PStr s) = (\<not> startswith s image_prefix)"
| "plain_data (PDict d) = True"
| "plain_data (PList xs) = True"
| "plain_data (PModel c fs) = True"
| "plain_data (PImage img) = True"
| "plain_data v = False"

text \<open>
  The values the constructor of \<^verbatim>\<open>Content\<close> accepts as \<^verbatim>\<open>data\<close>: a dict, a list, a tuple,
  bytes, a model instance, an image, and a string, unless it starts with the image
  prefix and its payload does not decode to an image.
\<close>

fun accepted :: "ext \<Rightarrow> pyval \<Rightarrow> bool" where
  "accepted x (PStr s) =
     (if startswith s image_prefix then
        (case b64decode x (drop (length image_prefix) s) of
           Inl e \<Rightarrow> False
         | Inr decoded_image \<Rightarrow>
             (case open_png x decoded_image of Inl e \<Rightarrow> False | Inr img \<Rightarrow> True))
      else True)"
| "accepted x (PDict d) = True"
| "accepted x (PList xs) = True"
| "accepted x (PTuple xs) = True"
| "accepted x (PBytes s) = True"
| "accepted x (PModel c fs) = True"
| "accepted x (PImage img) = True"
| "accepted x v = False"


section \<open>Example objects\<close>

text \<open>A host whose image and JSON libraries refuse every call.\<close>

definition no_libs :: ext where
  "no_libs =
     \<lparr>save_png = (\<lambda>img. Inl (CodecError ''cannot write'')),
      b64encode = (\<lambda>bs. []),
      b64decode = (\<lambda>s. Inl (CodecError ''cannot decode'')),
      open_png = (\<lambda>bs. Inl (CodecError ''cannot identify image file'')),
      json_dumps = (\<lambda>v. Inl (SerializationError ''not serializable'')),
      model_dump_json = (\<lambda>v. Inl (SerializationError ''not serializable''))\<rparr>"



text \<open>
  A tool over a click counter, as Python 3.11 (CPython) runs it:
  \<^verbatim>\<open>
  class DemoSpace(Protocol):
      def click(self): ...
      def count(self): ...
      def crash(self): ...
      def quit(self): ...
      def scroll(self): ...
      def snap(self): ...

  class DemoTool(Tool):
      action_space = DemoSpace
      clicks = 0
      def click(self): DemoTool.clicks += 1
      def count(self): return DemoTool.clicks
      def crash(self): raise RuntimeError("boom")
      def quit(self): raise SystemExit("bye")
      def snap(self): return "data:image/png;base64,"
  \<close>
  The action space declares six members; the tool implements all but \<^verbatim>\<open>scroll\<close>. A
  method called with a keyword argument it does not take raises a \<^verbatim>\<open>TypeError\<close>.
\<close>

definition unexpected_keyword :: "string \<Rightarrow> (string \<times> pyval) list \<Rightarrow> string" where
  "unexpected_keyword f args =
     f @ ''() got an unexpected keyword argument '' @ [CHR 0x27] @ fst (hd args) @ [CHR 0x27]"

definition demo_methods :: "(string \<times> nat callable) list" where
  "demo_methods =
     [(''click'', \<lambda>args w.
         if args = [] then (Returns PNone, Suc w)
         else (Raises (unexpected_keyword ''DemoTool.click'' args), w)),
      (''count'', \<lambda>args w.
         if args = [] then (Returns (PInt (int w)), w)
         else (Raises (unexpected_keyword ''DemoTool.count'' args), w)),
      (''crash'', \<lambda>args w.
         if args = [] then (Raises ''boom'', w)
         else (Raises (unexpected_keyword ''DemoTool.crash'' args), w)),
      (''quit'', \<lambda>args w.
         if args = [] then (RaisesBase ''bye'', w)
         else (Raises (unexpected_keyword ''DemoTool.quit'' args), w)),
      (''snap'', \<lambda>args w.
         if args = [] then (Returns (PStr ''data:image/png;base64,''), w)
         else (Raises (unexpected_keyword ''DemoTool.snap'' args), w))]"

text \<open>
  Besides what they define, the two classes have the attributes Python gives every
  class. \<open>inherited_attrs\<close> are those that are truthy on the class of the action space
  and on the tool instance alike, each with what it does when called on the tool: with
  no keyword argument the given outcome, with any the \<^verbatim>\<open>TypeError\<close> of the given text.
  Where the value differs from run to run (the address in \<^verbatim>\<open>__repr__\<close> and \<^verbatim>\<open>__str__\<close>,
  the hash, the order of \<^verbatim>\<open>__dir__\<close>) the table has the value of one run.
\<close>

definition no_keywords :: "string \<Rightarrow> outcome \<Rightarrow> nat callable" where
  "no_keywords refusal r = (\<lambda>args w. if args = [] then (r, w) else (Raises refusal, w))"

definition demo_dir :: "string list" where
  "demo_dir =
     [''__abstractmethods__'', ''__class__'', ''__delattr__'', ''__dict__'', ''__dir__'',
      ''__doc__'', ''__eq__'', ''__format__'', ''__ge__'', ''__getattribute__'',
      ''__getstate__'', ''__gt__'', ''__hash__'', ''__init__'', ''__init_subclass__'',
      ''__le__'', ''__lt__'', ''__module__'', ''__ne__'', ''__new__'', ''__reduce__'',
      ''__reduce_ex__'', ''__repr__'', ''__setattr__'', ''__sizeof__'', ''__slots__'',
      ''__str__'', ''__subclasshook__'', ''__weakref__'', ''_abc_impl'', ''action_space'',
      ''click'', ''clicks'', ''close'', ''count'', ''crash'', ''execute_action'',
      ''get_action_method'', ''get_actions'', ''quit'', ''reset'', ''snap'']"

definition inherited_attrs :: "(string \<times> nat callable) list" where
  "inherited_attrs =
     [(''__class__'', no_keywords ''DemoTool() takes no arguments'' (Returns (PObject ''DemoTool''))),
      (''__delattr__'', no_keywords ''wrapper __delattr__() takes no keyword arguments''
         (Raises ''expected 1 argument, got 0'')),
      (''__dir__'', no_keywords ''DemoTool.__dir__() takes no keyword arguments''
         (Returns (PList (map PStr demo_dir)))),
      (''__eq__'', no_keywords ''wrapper __eq__() takes no keyword arguments''
         (Raises ''expected 1 argument, got 0'')),
      (''__format__'', no_keywords ''DemoTool.__format__() takes no keyword arguments''
         (Raises ''DemoTool.__format__() takes exactly one argument (0 given)'')),
      (''__ge__'', no_keywords ''wrapper __ge__() takes no keyword arguments''
         (Raises ''expected 1 argument, got 0'')),
      (''__getattribute__'', no_keywords ''wrapper __getattribute__() takes no keyword arguments''
         (Raises ''expected 1 argument, got 0'')),
      (''__getstate__'', no_keywords ''DemoTool.__getstate__() takes no keyword arguments''
         (Returns PNone)),
      (''__gt__'', no_keywords ''wrapper __gt__() takes no keyword arguments''
         (Raises ''expected 1 argument, got 0'')),
      (''__hash__'', no_keywords ''wrapper __hash__() takes no keyword arguments''
         (Returns (PInt 8770790449341))),
      (''__init__'',
         no_keywords ''DemoTool.__init__() takes exactly one argument (the instance to initialize)''
         (Returns PNone)),
      (''__init_subclass__'', no_keywords ''DemoTool.__init_subclass__() takes no keyword arguments''
         (Returns PNone)),
      (''__le__'', no_keywords ''wrapper __le__() takes no keyword arguments''
         (Raises ''expected 1 argument, got 0'')),
      (''__lt__'', no_keywords ''wrapper __lt__() takes no keyword arguments''
         (Raises ''expected 1 argument, got 0'')),
      (''__module__'', \<lambda>args w. (Raises ([CHR 0x27] @ ''str' object is not callable''), w)),
      (''__ne__'', no_keywords ''wrapper __ne__() takes no keyword arguments''
         (Raises ''expected 1 argument, got 0'')),
      (''__new__'', \<lambda>args w. (Raises ''object.__new__(): not enough arguments'', w)),
      (''__reduce__'', no_keywords ''DemoTool.__reduce__() takes no keyword arguments''
         (Returns (PTuple [PObject ''copyreg._reconstructor'',
                           PTuple [PObject ''DemoTool'', PObject ''object'', PNone]]))),
      (''__reduce_ex__'', no_keywords ''DemoTool.__reduce_ex__() takes no keyword arguments''
         (Raises ''DemoTool.__reduce_ex__() takes exactly one argument (0 given)'')),
      (''__repr__'', no_keywords ''wrapper __repr__() takes no keyword arguments''
         (Returns (PStr ''<demo.DemoTool object at 0x7fa1bd960bd0>''))),
      (''__setattr__'', no_keywords ''wrapper __setattr__() takes no keyword arguments''
         (Raises '' expected 2 arguments, got 0'')),
      (''__sizeof__'', no_keywords ''DemoTool.__sizeof__() takes no keyword arguments''
         (Returns (PInt 24))),
      (''__str__'', no_keywords ''wrapper __str__() takes no keyword arguments''
         (Returns (PStr ''<demo.DemoTool object at 0x7fa1bd960bd0>''))),
      (''__subclasshook__'', no_keywords ''__subclasshook__() takes no keyword arguments''
         (Returns (PObject ''NotImplemented''))),
      (''_abc_impl'', \<lambda>args w.
         (Raises ([CHR 0x27] @ ''_abc._abc_data' object is not callable''), w))]"

text \<open>
  \<open>class_only_attrs\<close> are the attributes that are truthy on the class of the action
  space and absent or falsy on the tool instance: those of the metaclass and of
  \<^verbatim>\<open>Protocol\<close>. Every other name is no attribute of the class, or a falsy one
  (\<^verbatim>\<open>__doc__\<close>, \<^verbatim>\<open>__annotations__\<close>, \<^verbatim>\<open>__slots__\<close>).
\<close>

definition class_only_attrs :: "string list" where
  "class_only_attrs =
     [''__base__'', ''__bases__'', ''__basicsize__'', ''__call__'', ''__class_getitem__'',
      ''__dict__'', ''__dictoffset__'', ''__flags__'', ''__instancecheck__'', ''__mro__'',
      ''__name__'', ''__or__'', ''__prepare__'', ''__qualname__'', ''__ror__'',
      ''__subclasscheck__'', ''__subclasses__'', ''__weakref__'', ''__weakrefoffset__'',
      ''_abc_caches_clear'', ''_abc_registry_clear'', ''_dump_registry'', ''_is_protocol'',
      ''mro'', ''register'']"

definition demo_tool :: "nat tool" where
  "demo_tool =
     \<lparr>protocol_members = [''click'', ''count'', ''crash'', ''quit'', ''scroll'', ''snap''],
      space_attr = (\<lambda>n.
        n \<in> set [''click'', ''count'', ''crash'', ''quit'', ''scroll'', ''snap'']
        \<or> n \<in> set (map fst inherited_attrs) \<or> n \<in> set class_only_attrs),
      self_attr = map_of (demo_methods @ inherited_attrs),
      space_repr = ''<class 'demo.DemoSpace'>'',
      class_name = ''DemoTool''\<rparr>"






definition act :: "string \<Rightarrow> string \<Rightarrow> action" where
  "act i n = \<lparr>action_id = Some i, action_name = n, arguments = []\<rparr>"


definition hello :: content where
  "hello = \<lparr>tool_call_id = None, name = None, data = Text ''hello''\<rparr>"

text \<open>
  Observation 0 holds list 0, observation 1 holds list 1; list 0 is \<^verbatim>\<open>[hello]\<close>, list
  1 has the same entry twice.
\<close>

definition demo_store :: store where
  "demo_store =
     \<lparr>contents_ref = (\<lambda>a. a),
      list_at = (\<lambda>l. if l = 0 then [hello] else if l = 1 then [hello, hello] else [])\<rparr>"





text \<open>
  An instance of \<^verbatim>\<open>cube.core.Action\<close>, and an instance of a class \<^verbatim>\<open>Local\<close> that the
  body of a function \<^verbatim>\<open>make\<close> of the main script defines.
\<close>

definition Action_cls :: pycls where
  "Action_cls = PyCls ''cube.core'' ''Action'' ''Action''"

definition click_fields :: "(string \<times> pyval) list" where
  "click_fields = [(''id'', PNone), (''name'', PStr ''click''), (''arguments'', PDict [])]"











section \<open>Facts about Content\<close>

lemma not_startswith_image_prefix:
  "s \<noteq> [] \<Longrightarrow> hd s \<noteq> CHR ''d'' \<Longrightarrow> \<not> startswith s image_prefix"
  by (cases s) (auto simp: startswith_def image_prefix_def)

lemma Content_plain:
  "plain_data v \<Longrightarrow> \<exists>d. Content x t n v = Inr \<lparr>tool_call_id = t, name = n, data = d\<rparr>"
  by (cases v) (auto simp: Content_def deserialize_data_def)

lemma Content_text:
  "\<not> startswith s image_prefix \<Longrightarrow>
     Content x t n (PStr s) = Inr \<lparr>tool_call_id = t, name = n, data = Text s\<rparr>"
  by (simp add: Content_def deserialize_data_def)




lemma plain_data_accepted: "plain_data v \<Longrightarrow> accepted x v"
  by (cases v) auto

lemma decodable_accepted:
  "b64decode x payload = Inr bs \<Longrightarrow> open_png x bs = Inr img \<Longrightarrow>
     accepted x (PStr (image_prefix @ payload))"
  by (simp add: startswith_def)

lemma to_message_text_returns:
  "data c = Text s \<Longrightarrow> \<exists>m. to_message x c = Inr m"
  by (simp add: to_message_def msg_content_of_def Let_def)

lemma serialize_data_str: "serialize_data x (PStr s) = Inr (PStr s)"
  by (simp add: serialize_data_def)

lemma serialize_data_image:
  "save_png x img = Inr bs \<Longrightarrow>
     serialize_data x (PImage img) = Inr (PStr (image_prefix @ b64encode x bs))"
  by (simp add: serialize_data_def as_base64_image_str_def)

lemma deserialize_data_literal:
  "\<not> startswith s image_prefix \<Longrightarrow> deserialize_data x (PStr s) = Inr (PStr s)"
  by (simp add: deserialize_data_def)

lemma deserialize_data_image:
  "b64decode x payload = Inr bs \<Longrightarrow> open_png x bs = Inr img \<Longrightarrow>
     deserialize_data x (PStr (image_prefix @ payload)) = Inr (PImage img)"
  by (simp add: deserialize_data_def startswith_def)


section \<open>The role of a message\<close>



section \<open>Serialization of the data field\<close>

text \<open>
  Claim C5 says that a mapping, a sequence and a nested model serialize in their own
  native form. The field serializer has two branches only, string and image: a
  \<^verbatim>\<open>Content\<close> built from a dict is a valid Content, and serializing its \<^verbatim>\<open>data\<close>
  raises, since the value is sent to \<^verbatim>\<open>as_base64_image_str\<close> and has no \<^verbatim>\<open>save\<close>. The
  same holds for a list and for a model instance, with any codec.
\<close>

theorem serialize_data_mapping_fails:
  "Content x None None (PDict [(''k'', PStr ''v'')])
     = Inr \<lparr>tool_call_id = None, name = None, data = Mapping [(''k'', PStr ''v'')]\<rparr>
   \<and> serialize_data x (cdata_value (Mapping [(''k'', PStr ''v'')])) = Inl (AttributeError ''save'')
   \<and> serialize_data x (cdata_value (Sequence [PStr ''v''])) = Inl (AttributeError ''save'')
   \<and> serialize_data x (cdata_value (Model Action_cls click_fields)) = Inl (AttributeError ''save'')"
  by (simp add: Content_def deserialize_data_def serialize_data_def as_base64_image_str_def)

section \<open>Concatenation of observations\<close>

text \<open>
  Claim C8, as the code has it. \<^verbatim>\<open>a + b\<close> returns the left operand \<^verbatim>\<open>a\<close> itself; its
  contents are now \<^verbatim>\<open>a\<close>'s former contents followed by \<^verbatim>\<open>b\<close>'s, in order, and the
  list object \<^verbatim>\<open>a\<close> holds is the one it held before. \<^verbatim>\<open>b\<close> is left unchanged when
  \<^verbatim>\<open>b\<close>'s contents list is not the list \<^verbatim>\<open>a\<close> holds.
\<close>

theorem observation_add_unshared:
  assumes "observation_add a b st = (r, st')"
  shows "r = a
       \<and> contents_of st' a = contents_of st a @ contents_of st b
       \<and> contents_ref st' = contents_ref st
       \<and> (contents_ref st b \<noteq> contents_ref st a \<longrightarrow> contents_of st' b = contents_of st b)"
  using assms by (auto simp: observation_add_def contents_of_def Let_def)

text \<open>Observation 0 plus observation 1 of the example store.\<close>

theorem observation_add_unshared_witness:
  "observation_add 0 1 demo_store = (0, snd (observation_add 0 1 demo_store))
   \<and> contents_ref demo_store 1 \<noteq> contents_ref demo_store 0
   \<and> contents_of (snd (observation_add 0 1 demo_store)) 0 = [hello, hello, hello]
   \<and> contents_of (snd (observation_add 0 1 demo_store)) 1 = [hello, hello]"
proof -
  have h: "observation_add 0 1 demo_store = (0, snd (observation_add 0 1 demo_store))"
    by (simp add: observation_add_def Let_def)
  have d: "contents_ref demo_store 1 \<noteq> contents_ref demo_store 0"
    by (simp add: demo_store_def)
  have c: "contents_of demo_store 0 = [hello]" "contents_of demo_store 1 = [hello, hello]"
    by (simp_all add: demo_store_def contents_of_def)
  from observation_add_unshared [OF h] h d c show ?thesis by simp
qed

text \<open>
  With the same observation on both sides (\<^verbatim>\<open>a + a\<close>) the right operand is the left
  one, and it does not stay as it was: its one entry is there twice afterwards.
\<close>

theorem observation_add_self_counterexample:
  "contents_of demo_store 0 = [hello]
   \<and> contents_of (snd (observation_add 0 0 demo_store)) 0 = [hello, hello]"
  by (simp add: observation_add_def contents_of_def demo_store_def Let_def)

section \<open>Tool dispatch\<close>

lemma demo_lookup:
  "self_attr demo_tool ''click''
     = Some (\<lambda>args w. if args = [] then (Returns PNone, Suc w)
                       else (Raises (unexpected_keyword ''DemoTool.click'' args), w))"
  "self_attr demo_tool ''count''
     = Some (\<lambda>args w. if args = [] then (Returns (PInt (int w)), w)
                       else (Raises (unexpected_keyword ''DemoTool.count'' args), w))"
  "self_attr demo_tool ''crash''
     = Some (\<lambda>args w. if args = [] then (Raises ''boom'', w)
                       else (Raises (unexpected_keyword ''DemoTool.crash'' args), w))"
  "self_attr demo_tool ''quit''
     = Some (\<lambda>args w. if args = [] then (RaisesBase ''bye'', w)
                       else (Raises (unexpected_keyword ''DemoTool.quit'' args), w))"
  "self_attr demo_tool ''snap''
     = Some (\<lambda>args w. if args = [] then (Returns (PStr ''data:image/png;base64,''), w)
                       else (Raises (unexpected_keyword ''DemoTool.snap'' args), w))"
  "self_attr demo_tool ''scroll'' = None"
  "self_attr demo_tool ''final_step'' = None"
  "self_attr demo_tool ''__init__''
     = Some (no_keywords
          ''DemoTool.__init__() takes exactly one argument (the instance to initialize)''
          (Returns PNone))"
  by (simp_all add: demo_tool_def demo_methods_def inherited_attrs_def)

lemma demo_space:
  "space_attr demo_tool ''click''" "space_attr demo_tool ''count''"
  "space_attr demo_tool ''crash''" "space_attr demo_tool ''quit''"
  "space_attr demo_tool ''snap''" "space_attr demo_tool ''scroll''"
  "space_attr demo_tool ''__init__''"
  "\<not> space_attr demo_tool ''jump''" "\<not> space_attr demo_tool ''final_step''"
  by (simp_all add: demo_tool_def inherited_attrs_def class_only_attrs_def)






text \<open>
  Claim C3, as the code has it. When the method lookup succeeds, an exception derived
  from \<^verbatim>\<open>Exception\<close> that the method raises does not leave \<^verbatim>\<open>execute_action\<close>: the
  result is an Observation whose only Content carries the action's id and the text
  \<^verbatim>\<open>Error executing action {name}: {e}\<close>. A method that returns \<^verbatim>\<open>None\<close> gives the
  Content data \<^verbatim>\<open>Success\<close>, under the action's id too. An exception that is not derived
  from \<^verbatim>\<open>Exception\<close> leaves \<^verbatim>\<open>execute_action\<close>, with the state the method left.
\<close>

theorem execute_action_contains_exceptions:
  assumes "get_action_method t a = Inr fn"
  shows "(fn (arguments a) w = (Raises e, w') \<longrightarrow>
            execute_action x t a w =
              (Inr \<lparr>contents =
                 [\<lparr>tool_call_id = action_id a, name = None,
                   data = Text (''Error executing action '' @ action_name a @ '': '' @ e)\<rparr>]\<rparr>, w'))
       \<and> (fn (arguments a) w = (Returns PNone, w') \<longrightarrow>
            execute_action x t a w =
              (Inr \<lparr>contents =
                 [\<lparr>tool_call_id = action_id a, name = None, data = Text ''Success''\<rparr>]\<rparr>, w'))
       \<and> (fn (arguments a) w = (RaisesBase e, w') \<longrightarrow>
            execute_action x t a w = (Inl (BaseException e), w'))"
proof -
  have e: "\<not> startswith (''Error executing action '' @ action_name a @ '': '' @ e) image_prefix"
    by (rule not_startswith_image_prefix) simp_all
  have s: "\<not> startswith ''Success'' image_prefix"
    by (rule not_startswith_image_prefix) simp_all
  show ?thesis
    using assms Content_text [OF e, of x "action_id a" None] Content_text [OF s, of x "action_id a" None]
    by (simp add: execute_action_def py_or_def)
qed

text \<open>
  The example tool: \<^verbatim>\<open>crash\<close> raises a \<^verbatim>\<open>RuntimeError\<close>, \<^verbatim>\<open>click\<close> returns nothing,
  \<^verbatim>\<open>quit\<close> raises \<^verbatim>\<open>SystemExit\<close>.
\<close>

theorem execute_action_contains_exceptions_witness:
  "get_action_method demo_tool (act ''7'' ''crash'') = Inr (the (self_attr demo_tool ''crash''))
   \<and> the (self_attr demo_tool ''crash'') (arguments (act ''7'' ''crash'')) 3 = (Raises ''boom'', 3)
   \<and> execute_action no_libs demo_tool (act ''7'' ''crash'') 3 =
       (Inr \<lparr>contents = [\<lparr>tool_call_id = Some ''7'', name = None,
                           data = Text ''Error executing action crash: boom''\<rparr>]\<rparr>, 3)
   \<and> get_action_method demo_tool (act ''8'' ''click'') = Inr (the (self_attr demo_tool ''click''))
   \<and> the (self_attr demo_tool ''click'') (arguments (act ''8'' ''click'')) 3 = (Returns PNone, 4)
   \<and> execute_action no_libs demo_tool (act ''8'' ''click'') 3 =
       (Inr \<lparr>contents = [\<lparr>tool_call_id = Some ''8'', name = None, data = Text ''Success''\<rparr>]\<rparr>, 4)
   \<and> get_action_method demo_tool (act ''9'' ''quit'') = Inr (the (self_attr demo_tool ''quit''))
   \<and> the (self_attr demo_tool ''quit'') (arguments (act ''9'' ''quit'')) 3 = (RaisesBase ''bye'', 3)
   \<and> execute_action no_libs demo_tool (act ''9'' ''quit'') 3 = (Inl (BaseException ''bye''), 3)"
proof -
  have g1: "get_action_method demo_tool (act ''7'' ''crash'') = Inr (the (self_attr demo_tool ''crash''))"
    by (simp add: get_action_method_def act_def demo_space demo_lookup)
  have c1: "the (self_attr demo_tool ''crash'') (arguments (act ''7'' ''crash'')) 3 = (Raises ''boom'', 3)"
    by (simp add: act_def demo_lookup)
  have g2: "get_action_method demo_tool (act ''8'' ''click'') = Inr (the (self_attr demo_tool ''click''))"
    by (simp add: get_action_method_def act_def demo_space demo_lookup)
  have c2: "the (self_attr demo_tool ''click'') (arguments (act ''8'' ''click'')) 3 = (Returns PNone, 4)"
    by (simp add: act_def demo_lookup)
  have g3: "get_action_method demo_tool (act ''9'' ''quit'') = Inr (the (self_attr demo_tool ''quit''))"
    by (simp add: get_action_method_def act_def demo_space demo_lookup)
  have c3: "the (self_attr demo_tool ''quit'') (arguments (act ''9'' ''quit'')) 3 = (RaisesBase ''bye'', 3)"
    by (simp add: act_def demo_lookup)
  from execute_action_contains_exceptions [OF g1, of 3 "''boom''" 3 no_libs] c1
  have 1: "execute_action no_libs demo_tool (act ''7'' ''crash'') 3 =
       (Inr \<lparr>contents = [\<lparr>tool_call_id = Some ''7'', name = None,
                           data = Text ''Error executing action crash: boom''\<rparr>]\<rparr>, 3)"
    by (simp add: act_def)
  from execute_action_contains_exceptions [OF g2, of 3 "''boom''" 4 no_libs] c2
  have 2: "execute_action no_libs demo_tool (act ''8'' ''click'') 3 =
       (Inr \<lparr>contents = [\<lparr>tool_call_id = Some ''8'', name = None, data = Text ''Success''\<rparr>]\<rparr>, 4)"
    by (simp add: act_def)
  from execute_action_contains_exceptions [OF g3, of 3 "''bye''" 3 no_libs] c3
  have 3: "execute_action no_libs demo_tool (act ''9'' ''quit'') 3 = (Inl (BaseException ''bye''), 3)"
    by simp
  from g1 c1 g2 c2 g3 c3 1 2 3 show ?thesis by simp
qed

text \<open>
  The lookup of \<^verbatim>\<open>quit\<close> succeeds, the method raises \<^verbatim>\<open>SystemExit\<close>, which
  \<^verbatim>\<open>except Exception\<close> does not catch, and the exception leaves \<^verbatim>\<open>execute_action\<close>: no
  Observation is returned.
\<close>

theorem base_exception_counterexample:
  "get_action_method demo_tool (act ''9'' ''quit'') = Inr (the (self_attr demo_tool ''quit''))
   \<and> the (self_attr demo_tool ''quit'') (arguments (act ''9'' ''quit'')) 3 = (RaisesBase ''bye'', 3)
   \<and> execute_action no_libs demo_tool (act ''9'' ''quit'') 3 = (Inl (BaseException ''bye''), 3)"
  by (simp add: execute_action_def get_action_method_def act_def demo_space demo_lookup)




section \<open>The step of the environment\<close>















section \<open>Round trip of the type tag\<close>








end
